theory Spec2Isabelle
  imports Complex_Main
begin

section \<open>Data model of the similarity engine (src/scripts/search_image.py)\<close>

text \<open>
  Embeddings are NumPy float32 arrays in the source. They are modelled as lists of
  reals: the arithmetic of the engine (a squared distance, a halving, a subtraction from
  one, a maximum with zero) is carried out exactly, so rounding is outside the model.
\<close>

type_synonym embedding = "real list"

text \<open>
  One element of \<^verbatim>\<open>self.metadata\<close>: the dictionary
  \<^verbatim>\<open>{"place_name": ..., "image_path": ..., "index": ...}\<close>.
  \<^verbatim>\<open>image_path\<close> defaults to \<^verbatim>\<open>None\<close>; \<^verbatim>\<open>index\<close> is a Python int.
\<close>

record entry =
  place_name :: string
  image_path :: "string option"
  entry_index :: int

text \<open>
  One element of the list \<^verbatim>\<open>search\<close> returns: the dictionary with the keys
  \<^verbatim>\<open>place_name\<close>, \<^verbatim>\<open>confidence\<close>, \<^verbatim>\<open>distance\<close> and \<^verbatim>\<open>metadata\<close>.
\<close>

record result =
  res_place_name :: string
  confidence :: real
  distance :: real
  res_metadata :: entry

datatype error =
  DimensionMismatch        \<comment> \<open>the \<^verbatim>\<open>ValueError\<close> raised by \<^verbatim>\<open>add_landmark\<close>\<close>
| IndexDimensionMismatch   \<comment> \<open>the vector index rejecting a vector of the wrong width\<close>

subsection \<open>The vector index\<close>

text \<open>
  Modelled from the spec: the vector index (\<^verbatim>\<open>faiss.IndexFlatL2\<close>, a library that is
  not part of the repository's sources). Section 4.1 of the specification gives its
  contract: a fixed width, append-only storage, a query that returns the \<open>k\<close> nearest
  stored vectors by squared Euclidean distance in ascending order (ties in insertion
  order), and a dimension failure for a vector of another width.
\<close>

record IndexFlatL2 =
  idx_d :: nat
  idx_xb :: "embedding list"

definition new_IndexFlatL2 :: "nat \<Rightarrow> IndexFlatL2" where
  "new_IndexFlatL2 n = \<lparr>idx_d = n, idx_xb = []\<rparr>"

definition ntotal :: "IndexFlatL2 \<Rightarrow> nat" where
  "ntotal ix = length (idx_xb ix)"

definition fvec_L2sqr :: "embedding \<Rightarrow> embedding \<Rightarrow> real" where
  "fvec_L2sqr x y = sum_list (map (\<lambda>(a, b). (a - b) * (a - b)) (zip x y))"

text \<open>
  Modelled from the spec: the append of the vector index (\<^verbatim>\<open>index.add\<close> of the
  library), which accepts vectors of the index's width only.
\<close>

definition index_add :: "IndexFlatL2 \<Rightarrow> embedding \<Rightarrow> error + IndexFlatL2" where
  "index_add ix v =
     (if length v \<noteq> idx_d ix then Inl IndexDimensionMismatch
      else Inr (ix\<lparr>idx_xb := idx_xb ix @ [v]\<rparr>))"

text \<open>
  Modelled from the spec: the query of the vector index (\<^verbatim>\<open>index.search\<close> of the
  library). It returns pairs \<open>(distance, ordinal)\<close>, the way the source zips
  \<^verbatim>\<open>distances[0]\<close> with \<^verbatim>\<open>indices[0]\<close>: the \<open>k\<close> nearest stored vectors in
  ascending distance. \<open>sort_key\<close> is a stable insertion sort, so equal distances
  stay in insertion order.
\<close>

definition index_search :: "IndexFlatL2 \<Rightarrow> embedding \<Rightarrow> nat \<Rightarrow> error + (real \<times> nat) list" where
  "index_search ix q k =
     (if length q \<noteq> idx_d ix then Inl IndexDimensionMismatch
      else Inr (take k (sort_key fst
                  (zip (map (fvec_L2sqr q) (idx_xb ix)) [0..<ntotal ix]))))"

subsection \<open>The engine and its two files\<close>

text \<open>
  The state of an \<^verbatim>\<open>ImageSearch\<close> object: the index and the metadata list it holds in
  memory, and the contents of the two files at \<^verbatim>\<open>db_path\<close> and \<^verbatim>\<open>metadata_path\<close>
  (\<open>None\<close> when the file does not exist).
\<close>

record ImageSearch =
  index :: IndexFlatL2
  metadata :: "entry list"
  db_file :: "IndexFlatL2 option"
  metadata_file :: "entry list option"

definition dimension :: nat where
  "dimension = 512"

text \<open>
  \<^verbatim>\<open>_load_database\<close>: both files are read when both exist, otherwise the engine starts
  with an empty index of width \<open>dimension\<close> and an empty metadata list. A file, when it
  exists, holds a value of its type; unreadable files are not modelled.
\<close>

definition load_database :: "IndexFlatL2 option \<Rightarrow> entry list option \<Rightarrow> ImageSearch" where
  "load_database f m =
     (case (f, m) of
        (Some ix, Some md) \<Rightarrow> \<lparr>index = ix, metadata = md, db_file = f, metadata_file = m\<rparr>
      | _ \<Rightarrow> \<lparr>index = new_IndexFlatL2 dimension, metadata = [], db_file = f, metadata_file = m\<rparr>)"

text \<open>
  \<^verbatim>\<open>_save_database\<close> writes the index file, then the metadata file, inside a
  \<^verbatim>\<open>try\<close> whose handler only prints. What the file system does is a parameter: both
  writes succeed, the first one raises (nothing is written), or the second one raises
  (the index file is written, the metadata file is not).
\<close>

datatype save_outcome = SaveOk | IndexWriteFails | MetadataWriteFails

definition save_database :: "save_outcome \<Rightarrow> ImageSearch \<Rightarrow> ImageSearch" where
  "save_database io self =
     (case io of
        SaveOk \<Rightarrow> self\<lparr>db_file := Some (index self), metadata_file := Some (metadata self)\<rparr>
      | IndexWriteFails \<Rightarrow> self
      | MetadataWriteFails \<Rightarrow> self\<lparr>db_file := Some (index self)\<rparr>)"

text \<open>
  The loop of \<^verbatim>\<open>add_landmark\<close> over \<^verbatim>\<open>self.metadata\<close> that returns at the first
  entry with the given place name.
\<close>

fun place_name_exists :: "entry list \<Rightarrow> string \<Rightarrow> bool" where
  "place_name_exists [] p = False"
| "place_name_exists (md # mds) p =
     (if place_name md = p then True else place_name_exists mds p)"

text \<open>
  \<^verbatim>\<open>add_landmark\<close>: the dimension check, the duplicate check (a plain return), the
  append to the index, the append to the metadata with \<^verbatim>\<open>index.ntotal - 1\<close> read
  after the append, and the save. The result is the exception the call raised, if any,
  together with the state the object is left in: both raises happen before the first
  assignment, so they leave the state as it was.
\<close>

definition add_landmark ::
  "save_outcome \<Rightarrow> embedding \<Rightarrow> string \<Rightarrow> string option \<Rightarrow> ImageSearch
     \<Rightarrow> error option \<times> ImageSearch" where
  "add_landmark io emb pname ipath self =
     (if length emb \<noteq> dimension then (Some DimensionMismatch, self)
      else if place_name_exists (metadata self) pname then (None, self)
      else case index_add (index self) emb of
             Inl e \<Rightarrow> (Some e, self)
           | Inr ix \<Rightarrow>
               (None, save_database io
                 (self\<lparr>index := ix,
                       metadata := metadata self @
                         [\<lparr>place_name = pname, image_path = ipath,
                           entry_index = int (ntotal ix) - 1\<rparr>]\<rparr>)))"

text \<open>
  The loop of \<^verbatim>\<open>search\<close> over the hits: a hit whose ordinal is below
  \<^verbatim>\<open>len(self.metadata)\<close> becomes a result, any other hit is skipped.
\<close>

definition similarity :: "real \<Rightarrow> real" where
  "similarity d = max 0 (1 - d / 2)"

fun collect_results :: "entry list \<Rightarrow> (real \<times> nat) list \<Rightarrow> result list" where
  "collect_results mds [] = []"
| "collect_results mds ((d, i) # hits) =
     (if i < length mds
      then \<lparr>res_place_name = place_name (mds ! i), confidence = similarity d,
            distance = d, res_metadata = mds ! i\<rparr> # collect_results mds hits
      else collect_results mds hits)"

text \<open>
  \<^verbatim>\<open>search\<close>: the early return on an empty index comes first; the query asks the
  index for \<^verbatim>\<open>min(k, ntotal)\<close> neighbours. The method assigns nothing to
  \<^verbatim>\<open>self\<close>, so the model returns the results only. \<open>k\<close> is a count of results.
\<close>

definition search :: "ImageSearch \<Rightarrow> embedding \<Rightarrow> nat \<Rightarrow> error + result list" where
  "search self q k =
     (if ntotal (index self) = 0 then Inr []
      else case index_search (index self) q (min k (ntotal (index self))) of
             Inl e \<Rightarrow> Inl e
           | Inr hits \<Rightarrow> Inr (collect_results (metadata self) hits))"

text \<open>
  \<^verbatim>\<open>get_best_match\<close>:
  \<^verbatim>\<open>if results and results[0]["confidence"] >= threshold: return results[0]\<close>,
  otherwise \<^verbatim>\<open>None\<close>.
\<close>

definition get_best_match :: "ImageSearch \<Rightarrow> embedding \<Rightarrow> real \<Rightarrow> error + result option" where
  "get_best_match self q threshold =
     (case search self q 1 of
        Inl e \<Rightarrow> Inl e
      | Inr results \<Rightarrow>
          Inr (case results of
                 [] \<Rightarrow> None
               | r # _ \<Rightarrow> if threshold \<le> confidence r then Some r else None))"

section \<open>Coordinate resolution of the recognition pipeline (src/main.py, src/backend/main.py)\<close>

text \<open>
  \<^verbatim>\<open>latitude\<close> and \<^verbatim>\<open>longitude\<close> are optional floats of the request form. The
  source tests them with \<^verbatim>\<open>if latitude and longitude\<close>: Python's truth value of an
  optional float is false for \<^verbatim>\<open>None\<close> and for \<^verbatim>\<open>0.0\<close>.
\<close>

definition truthy :: "real option \<Rightarrow> bool" where
  "truthy x = (case x of None \<Rightarrow> False | Some v \<Rightarrow> v \<noteq> 0)"

text \<open>
  The resolution step of \<^verbatim>\<open>recognize_landmark\<close>:
  \<^verbatim>\<open>gps = (latitude, longitude) if latitude and longitude else extract_gps_from_bytes(img_bytes)\<close>.
  The parameter \<open>exif\<close> is what \<^verbatim>\<open>extract_gps_from_bytes\<close> returns on the bytes
  of the request's image; it is read only in the \<^verbatim>\<open>else\<close> branch. The second
  component of the result records whether the extractor was called.
\<close>

fun resolve_gps ::
  "real option \<Rightarrow> real option \<Rightarrow> (real \<times> real) option \<Rightarrow> (real \<times> real) option \<times> bool" where
  "resolve_gps (Some lat) (Some lon) exif =
     (if truthy (Some lat) \<and> truthy (Some lon) then (Some (lat, lon), False)
      else (exif, True))"
| "resolve_gps latitude longitude exif = (exif, True)"

section \<open>Notions of the specification\<close>

text \<open>The specification's \<open>clamp(x, lo, hi)\<close>.\<close>

definition clamp :: "real \<Rightarrow> real \<Rightarrow> real \<Rightarrow> real" where
  "clamp x lo hi = max lo (min x hi)"

text \<open>
  Positional identity (invariant I3 together with the alignment of catalog and index):
  the catalog is as long as the index, and the ordinals stored in the catalog read
  \<open>0, 1, 2, \<dots>\<close> in order.
\<close>

definition positional_identity :: "ImageSearch \<Rightarrow> bool" where
  "positional_identity self =
     (length (metadata self) = ntotal (index self) \<and>
      map entry_index (metadata self) = map int [0..<length (metadata self)])"

section \<open>Sample data\<close>

text \<open>
  A vector of \<open>dimension\<close> components along the first axis; \<open>axis_vector 1\<close> and
  \<open>axis_vector (- 1)\<close> have unit norm, \<open>axis_vector 0\<close> is the origin.
\<close>

definition axis_vector :: "real \<Rightarrow> embedding" where
  "axis_vector a = a # replicate 511 0"

text \<open>An engine started without files, after one and after two successful adds.\<close>

definition engine_one :: ImageSearch where
  "engine_one =
     snd (add_landmark SaveOk (axis_vector 1) ''Eiffel_Tower'' (Some ''eiffel.jpg'')
            (load_database None None))"

definition engine_two :: ImageSearch where
  "engine_two = snd (add_landmark SaveOk (axis_vector (- 1)) ''Taj_Mahal'' None engine_one)"

text \<open>The same first add when the write of the index file fails: nothing reaches the disk.\<close>

definition engine_unsaved :: ImageSearch where
  "engine_unsaved =
     snd (add_landmark IndexWriteFails (axis_vector 1) ''Eiffel_Tower'' (Some ''eiffel.jpg'')
            (load_database None None))"

section \<open>Auxiliary facts\<close>

subsection \<open>Squared distance and similarity\<close>

lemma fvec_L2sqr_nonneg: "0 \<le> fvec_L2sqr x y"
  unfolding fvec_L2sqr_def by (rule sum_list_nonneg) auto

lemma fvec_L2sqr_Cons:
  "fvec_L2sqr (a # x) (b # y) = (a - b) * (a - b) + fvec_L2sqr x y"
  by (simp add: fvec_L2sqr_def)

lemma fvec_L2sqr_self: "fvec_L2sqr x x = 0"
  by (induction x) (simp_all add: fvec_L2sqr_Cons, simp add: fvec_L2sqr_def)

lemma similarity_clamp: "0 \<le> d \<Longrightarrow> similarity d = clamp (1 - d / 2) 0 1"
  by (simp add: similarity_def clamp_def)

lemma similarity_nonneg: "0 \<le> similarity d"
  by (simp add: similarity_def)

lemma similarity_le_one: "0 \<le> d \<Longrightarrow> similarity d \<le> 1"
  by (simp add: similarity_def)

lemma similarity_antimono: "d \<le> d' \<Longrightarrow> similarity d' \<le> similarity d"
  by (simp add: similarity_def max_def)

lemma sorted_similarity:
  "sorted ds \<Longrightarrow> sorted_wrt (\<lambda>a b. b \<le> a) (map similarity ds)"
  by (induction ds) (auto simp: similarity_antimono)

subsection \<open>The loop over the hits\<close>

lemma length_collect_results: "length (collect_results mds hits) \<le> length hits"
  by (induction mds hits rule: collect_results.induct) auto

lemma collect_results_member:
  "r \<in> set (collect_results mds hits) \<Longrightarrow>
     \<exists>d i. (d, i) \<in> set hits \<and> i < length mds \<and> distance r = d
        \<and> confidence r = similarity d \<and> res_metadata r = mds ! i"
  by (induction mds hits rule: collect_results.induct) (auto split: if_splits)

lemma distance_collect_results:
  "map distance (collect_results mds hits) =
     map fst (filter (\<lambda>h. snd h < length mds) hits)"
  by (induction mds hits rule: collect_results.induct) auto

lemma confidence_collect_results:
  "map confidence (collect_results mds hits) =
     map similarity (map distance (collect_results mds hits))"
  by (induction mds hits rule: collect_results.induct) auto

lemma sorted_distance_collect_results:
  assumes "sorted (map fst hits)"
  shows "sorted (map distance (collect_results mds hits))"
proof -
  have "sorted (map fst (filter (\<lambda>h. snd h < length mds) hits))"
    using assms by (simp add: sorted_map sorted_wrt_filter)
  then show ?thesis by (simp add: distance_collect_results)
qed

subsection \<open>The query of the index\<close>

lemma index_search_hits:
  assumes "index_search ix q k = Inr hits"
  shows "length hits \<le> k" and "sorted (map fst hits)"
    and "\<And>d i. (d, i) \<in> set hits \<Longrightarrow> i < ntotal ix \<and> d = fvec_L2sqr q (idx_xb ix ! i)"
proof -
  let ?zs = "zip (map (fvec_L2sqr q) (idx_xb ix)) [0..<ntotal ix]"
  from assms have h: "hits = take k (sort_key fst ?zs)"
    by (auto simp: index_search_def split: if_splits)
  show "length hits \<le> k" by (simp add: h)
  have "sorted (map fst (sort_key fst ?zs))" by (rule sorted_sort_key)
  then have "sorted (take k (map fst (sort_key fst ?zs)))" by (rule sorted_wrt_take)
  then show "sorted (map fst hits)" by (simp add: h take_map)
  fix d i assume "(d, i) \<in> set hits"
  then have "(d, i) \<in> set ?zs" unfolding h by (auto dest: in_set_takeD)
  then show "i < ntotal ix \<and> d = fvec_L2sqr q (idx_xb ix ! i)"
    by (auto simp: set_zip ntotal_def)
qed

lemma sort_key_snoc_least:
  assumes "\<forall>y \<in> set xs. f x < f y"
  shows "sort_key f (xs @ [x]) = x # sort_key f xs"
proof -
  have "foldr (insort_key f) ys [x] = x # foldr (insort_key f) ys []"
    if "\<forall>y \<in> set ys. f x < f y" for ys
    using that by (induction ys) (auto simp: not_le)
  with assms show ?thesis by (simp add: sort_key_def)
qed

lemma index_search_after_add:
  assumes "length v = idx_d ix" and "\<forall>u \<in> set (idx_xb ix). fvec_L2sqr v u \<noteq> 0"
  shows "index_search (ix\<lparr>idx_xb := idx_xb ix @ [v]\<rparr>) v 1 = Inr [(0, ntotal ix)]"
proof -
  let ?zs = "zip (map (fvec_L2sqr v) (idx_xb ix)) [0..<ntotal ix]"
  have pos: "\<forall>y \<in> set ?zs. fst (0::real, ntotal ix) < fst y"
  proof
    fix y assume y: "y \<in> set ?zs"
    obtain a b where ab: "y = (a, b)" by (cases y)
    with y have "a \<in> set (map (fvec_L2sqr v) (idx_xb ix))" by (auto dest: set_zip_leftD)
    then obtain u where "u \<in> set (idx_xb ix)" and "a = fvec_L2sqr v u" by auto
    with assms(2) fvec_L2sqr_nonneg [of v u] have "0 < a" by auto
    with ab show "fst (0::real, ntotal ix) < fst y" by simp
  qed
  have "zip (map (fvec_L2sqr v) (idx_xb ix @ [v])) [0..<Suc (ntotal ix)] = ?zs @ [(0, ntotal ix)]"
    by (simp add: ntotal_def fvec_L2sqr_self)
  then have "sort_key fst (zip (map (fvec_L2sqr v) (idx_xb ix @ [v])) [0..<Suc (ntotal ix)])
     = (0, ntotal ix) # sort_key fst ?zs"
    using sort_key_snoc_least [OF pos] by simp
  with assms(1) show ?thesis
    by (simp add: index_search_def ntotal_def)
qed

lemma index_search_after_add_nearest:
  assumes "length v = idx_d ix"
  shows "\<exists>i. i \<le> ntotal ix \<and>
     index_search (ix\<lparr>idx_xb := idx_xb ix @ [v]\<rparr>) v 1 = Inr [(0, i)]"
proof -
  let ?ix = "ix\<lparr>idx_xb := idx_xb ix @ [v]\<rparr>"
  let ?zs = "zip (map (fvec_L2sqr v) (idx_xb ?ix)) [0..<ntotal ?ix]"
  let ?S = "sort_key fst ?zs"
  have hs: "index_search ?ix v 1 = Inr (take 1 ?S)"
    using assms by (simp add: index_search_def)
  have n: "ntotal ?ix = Suc (ntotal ix)" by (simp add: ntotal_def)
  have "?zs = zip (map (fvec_L2sqr v) (idx_xb ix)) [0..<ntotal ix] @ [(0, ntotal ix)]"
    by (simp add: ntotal_def fvec_L2sqr_self)
  then have mem: "(0, ntotal ix) \<in> set ?S" by simp
  obtain d i rest where S: "?S = (d, i) # rest"
  proof (cases ?S)
    case Nil
    from mem show ?thesis unfolding Nil by simp
  next
    case (Cons a rest)
    then show ?thesis using that by (cases a) blast
  qed
  then have t: "take 1 ?S = [(d, i)]" by simp
  have "(d, i) \<in> set (take 1 ?S)" unfolding t by simp
  from index_search_hits(3) [OF hs this]
  have i: "i < ntotal ?ix" and d: "d = fvec_L2sqr v (idx_xb ?ix ! i)" by simp_all
  have "0 \<le> d" unfolding d by (rule fvec_L2sqr_nonneg)
  moreover have "d \<le> 0"
  proof -
    have "sorted (map fst ((d, i) # rest))"
      using sorted_sort_key [of fst ?zs] unfolding S .
    then have "\<forall>x \<in> set rest. d \<le> fst x" by simp
    with mem show ?thesis unfolding S by auto
  qed
  ultimately have "d = 0" by simp
  with hs t i n show ?thesis by auto
qed

subsection \<open>Search\<close>

lemma search_Inr:
  assumes "search st q k = Inr rs"
  shows "rs = [] \<or> (\<exists>hits. index_search (index st) q (min k (ntotal (index st))) = Inr hits
            \<and> rs = collect_results (metadata st) hits)"
  using assms by (auto simp: search_def split: if_splits sum.splits)

lemma search_length:
  assumes "search st q k = Inr rs"
  shows "length rs \<le> k"
proof -
  from search_Inr [OF assms] show ?thesis
  proof
    assume "rs = []" then show ?thesis by simp
  next
    assume "\<exists>hits. index_search (index st) q (min k (ntotal (index st))) = Inr hits
            \<and> rs = collect_results (metadata st) hits"
    then obtain hits where hs: "index_search (index st) q (min k (ntotal (index st))) = Inr hits"
      and rs: "rs = collect_results (metadata st) hits" by blast
    have "length rs \<le> length hits" by (simp add: rs length_collect_results)
    with index_search_hits(1) [OF hs] show ?thesis by simp
  qed
qed

lemma search_sorted_distance:
  assumes "search st q k = Inr rs"
  shows "sorted (map distance rs)"
proof -
  from search_Inr [OF assms] show ?thesis
  proof
    assume "rs = []" then show ?thesis by simp
  next
    assume "\<exists>hits. index_search (index st) q (min k (ntotal (index st))) = Inr hits
            \<and> rs = collect_results (metadata st) hits"
    then obtain hits where hs: "index_search (index st) q (min k (ntotal (index st))) = Inr hits"
      and rs: "rs = collect_results (metadata st) hits" by blast
    show ?thesis
      unfolding rs by (rule sorted_distance_collect_results) (rule index_search_hits(2) [OF hs])
  qed
qed

lemma search_confidence:
  assumes "search st q k = Inr rs"
  shows "map confidence rs = map similarity (map distance rs)"
proof -
  from search_Inr [OF assms] show ?thesis
  proof
    assume "rs = []" then show ?thesis by simp
  next
    assume "\<exists>hits. index_search (index st) q (min k (ntotal (index st))) = Inr hits
            \<and> rs = collect_results (metadata st) hits"
    then obtain hits where rs: "rs = collect_results (metadata st) hits" by blast
    show ?thesis unfolding rs by (rule confidence_collect_results)
  qed
qed

lemma search_total:
  "length q = idx_d (index st) \<Longrightarrow> \<exists>rs. search st q k = Inr rs"
  by (simp add: search_def index_search_def)

subsection \<open>Saving and adding\<close>

lemma place_name_exists_iff:
  "place_name_exists mds p \<longleftrightarrow> p \<in> place_name ` set mds"
  by (induction mds) auto

lemma save_database_memory:
  "index (save_database io s) = index s" "metadata (save_database io s) = metadata s"
  by (cases io; simp add: save_database_def)+

lemma positional_identity_iff:
  "positional_identity st \<longleftrightarrow>
     length (metadata st) = ntotal (index st) \<and>
     (\<forall>i < length (metadata st). entry_index (metadata st ! i) = int i)"
proof -
  have "map entry_index mds = map int [0..<length mds]
      \<longleftrightarrow> (\<forall>i < length mds. entry_index (mds ! i) = int i)" for mds :: "entry list"
    by (simp add: list_eq_iff_nth_eq [of "map entry_index mds"])
  then show ?thesis by (simp add: positional_identity_def)
qed

subsection \<open>Coordinate resolution\<close>

lemma resolve_gps_explicit:
  "lat \<noteq> 0 \<Longrightarrow> lon \<noteq> 0 \<Longrightarrow> resolve_gps (Some lat) (Some lon) exif = (Some (lat, lon), False)"
  by (simp add: truthy_def)

lemma resolve_gps_absent:
  "resolve_gps None longitude exif = (exif, True)" "resolve_gps latitude None exif = (exif, True)"
  by (cases latitude; simp)+

subsection \<open>The sample data\<close>

lemma length_axis_vector: "length (axis_vector a) = dimension"
  by (simp add: axis_vector_def dimension_def)

lemma fvec_L2sqr_axis_vector:
  "fvec_L2sqr (axis_vector a) (axis_vector b) = (a - b) * (a - b)"
  by (simp add: axis_vector_def fvec_L2sqr_Cons fvec_L2sqr_self)

lemma engine_one_eq:
  "engine_one =
     \<lparr>index = \<lparr>idx_d = 512, idx_xb = [axis_vector 1]\<rparr>,
      metadata = [\<lparr>place_name = ''Eiffel_Tower'', image_path = Some ''eiffel.jpg'', entry_index = 0\<rparr>],
      db_file = Some \<lparr>idx_d = 512, idx_xb = [axis_vector 1]\<rparr>,
      metadata_file =
        Some [\<lparr>place_name = ''Eiffel_Tower'', image_path = Some ''eiffel.jpg'', entry_index = 0\<rparr>]\<rparr>"
  by (simp add: engine_one_def add_landmark_def load_database_def new_IndexFlatL2_def
      length_axis_vector index_add_def save_database_def ntotal_def dimension_def)

lemma engine_two_eq:
  "engine_two =
     \<lparr>index = \<lparr>idx_d = 512, idx_xb = [axis_vector 1, axis_vector (- 1)]\<rparr>,
      metadata = [\<lparr>place_name = ''Eiffel_Tower'', image_path = Some ''eiffel.jpg'', entry_index = 0\<rparr>,
                  \<lparr>place_name = ''Taj_Mahal'', image_path = None, entry_index = 1\<rparr>],
      db_file = Some \<lparr>idx_d = 512, idx_xb = [axis_vector 1, axis_vector (- 1)]\<rparr>,
      metadata_file =
        Some [\<lparr>place_name = ''Eiffel_Tower'', image_path = Some ''eiffel.jpg'', entry_index = 0\<rparr>,
              \<lparr>place_name = ''Taj_Mahal'', image_path = None, entry_index = 1\<rparr>]\<rparr>"
  by (simp add: engine_two_def engine_one_eq add_landmark_def
      length_axis_vector index_add_def save_database_def ntotal_def dimension_def)

lemma engine_unsaved_eq:
  "engine_unsaved =
     \<lparr>index = \<lparr>idx_d = 512, idx_xb = [axis_vector 1]\<rparr>,
      metadata = [\<lparr>place_name = ''Eiffel_Tower'', image_path = Some ''eiffel.jpg'', entry_index = 0\<rparr>],
      db_file = None, metadata_file = None\<rparr>"
  by (simp add: engine_unsaved_def add_landmark_def load_database_def new_IndexFlatL2_def
      length_axis_vector index_add_def save_database_def ntotal_def dimension_def)

lemma search_engine_one:
  "search engine_one (axis_vector a) (Suc k) =
     Inr [\<lparr>res_place_name = ''Eiffel_Tower'', confidence = similarity ((a - 1) * (a - 1)),
           distance = (a - 1) * (a - 1),
           res_metadata = \<lparr>place_name = ''Eiffel_Tower'', image_path = Some ''eiffel.jpg'',
                            entry_index = 0\<rparr>\<rparr>]"
  using length_axis_vector [of a]
  by (simp add: search_def engine_one_eq ntotal_def index_search_def dimension_def
      fvec_L2sqr_axis_vector)

lemma search_engine_two:
  "search engine_two (axis_vector 1) (Suc (Suc k)) =
     Inr [\<lparr>res_place_name = ''Eiffel_Tower'', confidence = 1, distance = 0,
           res_metadata = \<lparr>place_name = ''Eiffel_Tower'', image_path = Some ''eiffel.jpg'',
                            entry_index = 0\<rparr>\<rparr>,
          \<lparr>res_place_name = ''Taj_Mahal'', confidence = 0, distance = 4,
           res_metadata = \<lparr>place_name = ''Taj_Mahal'', image_path = None, entry_index = 1\<rparr>\<rparr>]"
  using length_axis_vector [of 1]
  by (simp add: search_def engine_two_eq ntotal_def index_search_def dimension_def
      fvec_L2sqr_axis_vector similarity_def)


section \<open>The claims\<close>

subsection \<open>C1: precedence of the caller's coordinates\<close>

text \<open>
  C1 says that whenever the caller supplies both a latitude and a longitude, the
  resolved coordinates are that pair and the EXIF extractor is not consulted. The
  source tests the two optional floats by truth value, so a supplied latitude of
  \<open>0.0\<close> (a point on the equator) counts as absent: for the request with latitude
  \<open>0\<close>, longitude \<open>77.59\<close> and an image whose EXIF block holds \<open>(12.97, 77.59)\<close>,
  the extractor is called and the resolved coordinates are the EXIF pair.
\<close>

theorem resolve_gps_zero_latitude:
  "resolve_gps (Some 0) (Some 77.59) (Some (12.97, 77.59)) = (Some (12.97, 77.59), True)"
  by (simp add: truthy_def)

subsection \<open>C2: vectors of the wrong length\<close>

text \<open>
  C2 as stated says that \<open>search\<close> fails for every vector whose length is not
  \<open>dimension\<close>. On an engine whose index is empty the early return of \<open>search\<close>
  comes before the vector is looked at: the empty vector is answered with the empty
  list, and no error.
\<close>

theorem search_wrong_length_empty_index:
  "length ([] :: embedding) \<noteq> dimension \<and>
   search (load_database None None) [] 5 = Inr []"
  by (simp add: dimension_def search_def load_database_def ntotal_def new_IndexFlatL2_def)

text \<open>
  C2, amended: for every vector whose length differs from \<open>dimension\<close>,
  \<open>add_landmark\<close> fails with \<open>DimensionMismatch\<close> and leaves the whole state (index,
  catalog and files) as it was; \<open>search\<close> of such a vector returns the empty list when
  the index is empty, and fails with the index's dimension error when the index is not
  empty and has width \<open>dimension\<close>. (\<open>search\<close> has no state to change.)
\<close>

theorem wrong_length_add_and_search:
  assumes "length v \<noteq> dimension"
  shows "add_landmark io v p r st = (Some DimensionMismatch, st)
       \<and> (ntotal (index st) = 0 \<longrightarrow> search st v k = Inr [])
       \<and> (ntotal (index st) \<noteq> 0 \<and> idx_d (index st) = dimension
            \<longrightarrow> search st v k = Inl IndexDimensionMismatch)"
  using assms by (simp add: add_landmark_def search_def index_search_def)

theorem wrong_length_add_and_search_witness:
  "length [1, 2, 3 :: real] \<noteq> dimension
   \<and> add_landmark SaveOk [1, 2, 3] ''Taj_Mahal'' None engine_one
       = (Some DimensionMismatch, engine_one)
   \<and> search engine_one [1, 2, 3] 5 = Inl IndexDimensionMismatch
   \<and> search (load_database None None) [1, 2, 3] 5 = Inr []"
proof -
  have h: "length [1, 2, 3 :: real] \<noteq> dimension" by (simp add: dimension_def)
  have one: "ntotal (index engine_one) \<noteq> 0 \<and> idx_d (index engine_one) = dimension"
    by (simp add: engine_one_eq ntotal_def dimension_def)
  have new: "ntotal (index (load_database None None)) = 0"
    by (simp add: load_database_def new_IndexFlatL2_def ntotal_def)
  from wrong_length_add_and_search [OF h, of SaveOk "''Taj_Mahal''" None engine_one 5]
    wrong_length_add_and_search [OF h, of SaveOk "''Taj_Mahal''" None "load_database None None" 5]
    h one new
  show ?thesis by simp
qed

subsection \<open>C3: a second add for a known place name\<close>

text \<open>
  C3: for every state of the engine and every place name already in the catalog, a
  second add of an embedding (a vector of length \<open>dimension\<close>, as the data model fixes
  it) under that name is a no-op: it raises no error and leaves the state as it was, so
  the catalog and the index keep their sizes and the index keeps its vectors: the
  vector stored for the place is still the one of the first add.
\<close>

theorem duplicate_add_is_noop:
  assumes "place_name_exists (metadata st) p" and "length v2 = dimension"
  shows "fst (add_landmark io v2 p r2 st) = None
       \<and> snd (add_landmark io v2 p r2 st) = st
       \<and> length (metadata (snd (add_landmark io v2 p r2 st))) = length (metadata st)
       \<and> ntotal (index (snd (add_landmark io v2 p r2 st))) = ntotal (index st)
       \<and> idx_xb (index (snd (add_landmark io v2 p r2 st))) = idx_xb (index st)"
  using assms by (simp add: add_landmark_def)

text \<open>
  \<open>Eiffel_Tower\<close> was added with \<open>axis_vector 1\<close>; a second add under that name with
  \<open>axis_vector (- 1)\<close> leaves \<open>axis_vector 1\<close> as the only stored vector.
\<close>

theorem duplicate_add_is_noop_witness:
  "place_name_exists (metadata engine_one) ''Eiffel_Tower''
   \<and> length (axis_vector (- 1)) = dimension
   \<and> add_landmark SaveOk (axis_vector (- 1)) ''Eiffel_Tower'' None engine_one = (None, engine_one)
   \<and> idx_xb (index (snd (add_landmark SaveOk (axis_vector (- 1)) ''Eiffel_Tower'' None engine_one)))
       = [axis_vector 1]"
proof -
  have h: "place_name_exists (metadata engine_one) ''Eiffel_Tower''"
    by (simp add: engine_one_eq)
  have l: "length (axis_vector (- 1)) = dimension" by (rule length_axis_vector)
  have x: "idx_xb (index engine_one) = [axis_vector 1]"
    by (simp add: engine_one_eq)
  from duplicate_add_is_noop [OF h l, of SaveOk None] h l x
  show ?thesis by (simp add: prod_eq_iff)
qed

subsection \<open>C4: the best match and its threshold\<close>

text \<open>
  C4: \<open>get_best_match\<close> returns a match exactly when \<open>search\<close> with \<open>k = 1\<close> returns
  one result whose confidence is at least the threshold (a confidence equal to the
  threshold is a match), and the match is that result; it returns none exactly when the
  search result is empty or its confidence is below the threshold. For a query as wide
  as the index one of the two happens: the call raises nothing.
\<close>

theorem get_best_match_iff:
  "(get_best_match st q t = Inr (Some r)
       \<longleftrightarrow> search st q 1 = Inr [r] \<and> t \<le> confidence r)
   \<and> (get_best_match st q t = Inr None
       \<longleftrightarrow> search st q 1 = Inr []
           \<or> (\<exists>r'. search st q 1 = Inr [r'] \<and> confidence r' < t))
   \<and> (length q = idx_d (index st) \<longrightarrow> (\<exists>m. get_best_match st q t = Inr m))"
proof (cases "search st q 1")
  case (Inl e)
  then have "length q \<noteq> idx_d (index st)"
    using search_total [of q st 1] by auto
  with Inl show ?thesis by (simp add: get_best_match_def)
next
  case (Inr rs)
  then have "length rs \<le> 1" by (rule search_length)
  then consider "rs = []" | r0 where "rs = [r0]"
    by (cases rs) auto
  then show ?thesis
  proof cases
    case 1
    with Inr show ?thesis by (simp add: get_best_match_def)
  next
    case 2
    with Inr show ?thesis by (auto simp: get_best_match_def)
  qed
qed

text \<open>
  At the boundary: the stored vector queried with threshold \<open>1\<close> has confidence \<open>1\<close>
  and is returned; the opposite vector has confidence \<open>0\<close> and is not returned at the
  threshold \<open>0.6\<close> of the call sites.
\<close>

theorem get_best_match_iff_witness:
  "length (axis_vector 1) = idx_d (index engine_one)
   \<and> get_best_match engine_one (axis_vector 1) 1 =
       Inr (Some \<lparr>res_place_name = ''Eiffel_Tower'', confidence = 1, distance = 0,
                   res_metadata = \<lparr>place_name = ''Eiffel_Tower'',
                     image_path = Some ''eiffel.jpg'', entry_index = 0\<rparr>\<rparr>)
   \<and> get_best_match engine_one (axis_vector (- 1)) (6 / 10) = Inr None"
proof -
  let ?e = "\<lparr>place_name = ''Eiffel_Tower'', image_path = Some ''eiffel.jpg'', entry_index = 0\<rparr>"
  let ?r = "\<lparr>res_place_name = ''Eiffel_Tower'', confidence = 1, distance = 0, res_metadata = ?e\<rparr>"
  let ?r' = "\<lparr>res_place_name = ''Eiffel_Tower'', confidence = 0, distance = 4, res_metadata = ?e\<rparr>"
  have w: "length (axis_vector 1) = idx_d (index engine_one)"
    by (simp add: length_axis_vector engine_one_eq dimension_def)
  have s: "search engine_one (axis_vector 1) 1 = Inr [?r]"
    using search_engine_one [of 1 0] by (simp add: similarity_def)
  have s': "search engine_one (axis_vector (- 1)) 1 = Inr [?r']"
    using search_engine_one [of "- 1" 0] by (simp add: similarity_def)
  from get_best_match_iff [of engine_one "axis_vector 1" 1 ?r] s
  have a: "get_best_match engine_one (axis_vector 1) 1 = Inr (Some ?r)" by simp
  from get_best_match_iff [of engine_one "axis_vector (- 1)" "6 / 10" ?r] s'
  have b: "get_best_match engine_one (axis_vector (- 1)) (6 / 10) = Inr None" by simp
  from w a b show ?thesis by simp
qed

subsection \<open>C5: confidence from distance\<close>

text \<open>
  C5: every result that \<open>search\<close> returns belongs to a stored vector and its catalog
  entry, its distance is the squared Euclidean distance from the query to that vector,
  its confidence is \<open>clamp (1 - d / 2) 0 1\<close> of that distance, and so lies between
  \<open>0\<close> and \<open>1\<close>.
\<close>

theorem search_confidence_clamp:
  assumes "search st q k = Inr rs" and "r \<in> set rs"
  shows "(\<exists>i. i < ntotal (index st) \<and> i < length (metadata st)
            \<and> res_metadata r = metadata st ! i
            \<and> distance r = fvec_L2sqr q (idx_xb (index st) ! i))
       \<and> confidence r = clamp (1 - distance r / 2) 0 1
       \<and> 0 \<le> confidence r \<and> confidence r \<le> 1"
proof -
  from search_Inr [OF assms(1)] assms(2)
  obtain hits where hs: "index_search (index st) q (min k (ntotal (index st))) = Inr hits"
      and rs: "rs = collect_results (metadata st) hits" by auto
  from collect_results_member [OF assms(2) [unfolded rs]]
  obtain d i where di: "(d, i) \<in> set hits" "i < length (metadata st)" "distance r = d"
     "confidence r = similarity d" "res_metadata r = metadata st ! i" by blast
  from index_search_hits(3) [OF hs di(1)]
  have i: "i < ntotal (index st)" and d: "d = fvec_L2sqr q (idx_xb (index st) ! i)" by simp_all
  have "0 \<le> d" unfolding d by (rule fvec_L2sqr_nonneg)
  then have "confidence r = clamp (1 - distance r / 2) 0 1" "0 \<le> confidence r" "confidence r \<le> 1"
    using di(3,4) similarity_nonneg [of d] similarity_le_one [of d]
    by (simp_all add: similarity_clamp)
  moreover have "\<exists>i. i < ntotal (index st) \<and> i < length (metadata st)
            \<and> res_metadata r = metadata st ! i
            \<and> distance r = fvec_L2sqr q (idx_xb (index st) ! i)"
    using i d di by blast
  ultimately show ?thesis by blast
qed

text \<open>
  The second result of the sample search is at distance \<open>4\<close>: \<open>1 - 4 / 2\<close> is
  negative and the confidence is \<open>0\<close>.
\<close>

theorem search_confidence_clamp_witness:
  "search engine_two (axis_vector 1) 2 =
     Inr [\<lparr>res_place_name = ''Eiffel_Tower'', confidence = 1, distance = 0,
           res_metadata = \<lparr>place_name = ''Eiffel_Tower'', image_path = Some ''eiffel.jpg'',
                            entry_index = 0\<rparr>\<rparr>,
          \<lparr>res_place_name = ''Taj_Mahal'', confidence = 0, distance = 4,
           res_metadata = \<lparr>place_name = ''Taj_Mahal'', image_path = None, entry_index = 1\<rparr>\<rparr>]
   \<and> (0::real) = clamp (1 - 4 / 2) 0 1"
proof -
  let ?r0 = "\<lparr>res_place_name = ''Eiffel_Tower'', confidence = 1, distance = 0,
           res_metadata = \<lparr>place_name = ''Eiffel_Tower'', image_path = Some ''eiffel.jpg'',
                            entry_index = 0\<rparr>\<rparr>"
  let ?r1 = "\<lparr>res_place_name = ''Taj_Mahal'', confidence = 0, distance = 4,
           res_metadata = \<lparr>place_name = ''Taj_Mahal'', image_path = None, entry_index = 1\<rparr>\<rparr>"
  have s: "search engine_two (axis_vector 1) 2 = Inr [?r0, ?r1]"
    using search_engine_two [of 0] by (simp add: numeral_2_eq_2)
  have m: "?r1 \<in> set [?r0, ?r1]" by simp
  from search_confidence_clamp [OF s m] s show ?thesis by simp
qed

subsection \<open>C6: number and order of the results\<close>

text \<open>
  C6: for every query and every \<open>k\<close>, the list that \<open>search\<close> returns has at most
  \<open>k\<close> results, its distances ascend and its confidences never increase.
\<close>

theorem search_at_most_k_ordered:
  assumes "search st q k = Inr rs"
  shows "length rs \<le> k \<and> sorted (map distance rs)
       \<and> sorted_wrt (\<lambda>a b. b \<le> a) (map confidence rs)"
proof -
  have s: "sorted (map distance rs)" using assms by (rule search_sorted_distance)
  then have "sorted_wrt (\<lambda>a b. b \<le> a) (map similarity (map distance rs))"
    by (rule sorted_similarity)
  then have "sorted_wrt (\<lambda>a b. b \<le> a) (map confidence rs)"
    by (simp only: search_confidence [OF assms])
  with s search_length [OF assms] show ?thesis by simp
qed

text \<open>With two stored vectors, \<open>k = 1\<close> keeps the nearer one only.\<close>

theorem search_at_most_k_ordered_witness:
  "search engine_two (axis_vector 1) 1 =
     Inr [\<lparr>res_place_name = ''Eiffel_Tower'', confidence = 1, distance = 0,
           res_metadata = \<lparr>place_name = ''Eiffel_Tower'', image_path = Some ''eiffel.jpg'',
                            entry_index = 0\<rparr>\<rparr>]
   \<and> (\<exists>rs. search engine_two (axis_vector 1) 2 = Inr rs \<and> length rs = 2
          \<and> map distance rs = [0, 4] \<and> map confidence rs = [1, 0]
          \<and> sorted (map distance rs) \<and> sorted_wrt (\<lambda>a b. b \<le> a) (map confidence rs))"
proof -
  let ?r0 = "\<lparr>res_place_name = ''Eiffel_Tower'', confidence = 1, distance = 0,
           res_metadata = \<lparr>place_name = ''Eiffel_Tower'', image_path = Some ''eiffel.jpg'',
                            entry_index = 0\<rparr>\<rparr>"
  let ?r1 = "\<lparr>res_place_name = ''Taj_Mahal'', confidence = 0, distance = 4,
           res_metadata = \<lparr>place_name = ''Taj_Mahal'', image_path = None, entry_index = 1\<rparr>\<rparr>"
  have one: "search engine_two (axis_vector 1) 1 = Inr [?r0]"
    using length_axis_vector [of 1]
    by (simp add: search_def engine_two_eq ntotal_def index_search_def dimension_def
        fvec_L2sqr_axis_vector similarity_def)
  have two: "search engine_two (axis_vector 1) 2 = Inr [?r0, ?r1]"
    using search_engine_two [of 0] by (simp add: numeral_2_eq_2)
  from search_at_most_k_ordered [OF two] search_at_most_k_ordered [OF one] one two
  show ?thesis by simp
qed

subsection \<open>C7: the empty index\<close>

text \<open>
  C7: when the index is empty, \<open>search\<close> returns the empty list for every vector (of
  any length) and every \<open>k\<close>, and \<open>get_best_match\<close> returns none for every threshold;
  neither raises.
\<close>

theorem empty_index_search_and_best_match:
  assumes "ntotal (index st) = 0"
  shows "search st v k = Inr [] \<and> get_best_match st v t = Inr None"
  using assms by (simp add: search_def get_best_match_def)

theorem empty_index_search_and_best_match_witness:
  "ntotal (index (load_database None None)) = 0
   \<and> search (load_database None None) (axis_vector 1) 5 = Inr []
   \<and> get_best_match (load_database None None) (axis_vector 1) (6 / 10) = Inr None"
proof -
  have h: "ntotal (index (load_database None None)) = 0"
    by (simp add: load_database_def new_IndexFlatL2_def ntotal_def)
  from empty_index_search_and_best_match [OF h, of "axis_vector 1" 5 "6 / 10"] h
  show ?thesis by simp
qed

subsection \<open>C8: a vector finds itself\<close>

text \<open>
  C8 as stated holds for every valid embedding and every place name, whatever the
  engine holds. When the place name is already in the catalog the add is dropped: with
  \<open>Eiffel_Tower\<close> stored for \<open>axis_vector 1\<close>, an add of the unit vector
  \<open>axis_vector (- 1)\<close> under the same name changes nothing, and the search for that
  vector returns the old entry at distance \<open>4\<close> with confidence \<open>0\<close>.
\<close>

theorem add_then_search_known_place:
  "length (axis_vector (- 1)) = dimension
   \<and> fvec_L2sqr (axis_vector (- 1)) (axis_vector 0) = 1
   \<and> fst (add_landmark SaveOk (axis_vector (- 1)) ''Eiffel_Tower'' None engine_one) = None
   \<and> search (snd (add_landmark SaveOk (axis_vector (- 1)) ''Eiffel_Tower'' None engine_one))
        (axis_vector (- 1)) 1 =
       Inr [\<lparr>res_place_name = ''Eiffel_Tower'', confidence = 0, distance = 4,
             res_metadata = \<lparr>place_name = ''Eiffel_Tower'',
               image_path = Some ''eiffel.jpg'', entry_index = 0\<rparr>\<rparr>]"
proof -
  have a: "add_landmark SaveOk (axis_vector (- 1)) ''Eiffel_Tower'' None engine_one
      = (None, engine_one)"
    using length_axis_vector [of "- 1"] by (simp add: add_landmark_def engine_one_eq)
  show ?thesis
    using search_engine_one [of "- 1" 0]
    by (simp add: a length_axis_vector fvec_L2sqr_axis_vector similarity_def)
qed

text \<open>
  C8, amended: for every embedding \<open>v\<close> of length \<open>dimension\<close>, every engine whose
  index has width \<open>dimension\<close> and is as long as its catalog, and every place name that
  is not yet in the catalog, the add succeeds and the search for \<open>v\<close> with \<open>k = 1\<close>
  returns exactly one result, at distance \<open>0\<close> and with confidence \<open>1\<close>; that result
  is the new place whenever no vector stored before is at distance \<open>0\<close> from \<open>v\<close>.
\<close>

theorem add_then_search_finds_it:
  assumes "length v = dimension" and "idx_d (index st) = dimension"
    and "length (metadata st) = ntotal (index st)"
    and "\<not> place_name_exists (metadata st) p"
  shows "fst (add_landmark io v p ref st) = None
     \<and> (\<exists>r. search (snd (add_landmark io v p ref st)) v 1 = Inr [r]
            \<and> distance r = 0 \<and> confidence r = 1)
     \<and> ((\<forall>u \<in> set (idx_xb (index st)). fvec_L2sqr v u \<noteq> 0) \<longrightarrow>
         search (snd (add_landmark io v p ref st)) v 1 =
           Inr [\<lparr>res_place_name = p, confidence = 1, distance = 0,
                 res_metadata = \<lparr>place_name = p, image_path = ref,
                                  entry_index = int (ntotal (index st))\<rparr>\<rparr>])"
proof -
  let ?e = "\<lparr>place_name = p, image_path = ref, entry_index = int (ntotal (index st))\<rparr>"
  let ?ix = "(index st)\<lparr>idx_xb := idx_xb (index st) @ [v]\<rparr>"
  let ?st = "snd (add_landmark io v p ref st)"
  have a: "add_landmark io v p ref st =
      (None, save_database io (st\<lparr>index := ?ix, metadata := metadata st @ [?e]\<rparr>))"
    using assms(1,2,4) by (simp add: add_landmark_def index_add_def ntotal_def)
  have ix: "index ?st = ?ix" and md: "metadata ?st = metadata st @ [?e]"
    by (simp_all add: a save_database_memory)
  have s: "search ?st v 1 = Inr (collect_results (metadata st @ [?e]) hits)"
    if "index_search ?ix v 1 = Inr hits" for hits
    using that by (simp add: search_def ix md ntotal_def)
  have w: "length v = idx_d (index st)" using assms(1,2) by simp
  from index_search_after_add_nearest [OF w]
  obtain i where i: "i \<le> ntotal (index st)" and h: "index_search ?ix v 1 = Inr [(0, i)]"
    by blast
  have "\<exists>r. search ?st v 1 = Inr [r] \<and> distance r = 0 \<and> confidence r = 1"
    using s [OF h] i assms(3) by (simp add: similarity_def)
  moreover have "search ?st v 1 =
           Inr [\<lparr>res_place_name = p, confidence = 1, distance = 0, res_metadata = ?e\<rparr>]"
    if tie: "\<forall>u \<in> set (idx_xb (index st)). fvec_L2sqr v u \<noteq> 0"
  proof -
    have "(metadata st @ [?e]) ! ntotal (index st) = ?e"
      using nth_append_length [of "metadata st" ?e] by (simp only: assms(3))
    with s [OF index_search_after_add [OF w tie]] assms(3) show ?thesis
      by (simp add: similarity_def)
  qed
  ultimately show ?thesis by (simp add: a)
qed

theorem add_then_search_finds_it_witness:
  "length (axis_vector (- 1)) = dimension \<and> idx_d (index engine_one) = dimension
   \<and> length (metadata engine_one) = ntotal (index engine_one)
   \<and> \<not> place_name_exists (metadata engine_one) ''Taj_Mahal''
   \<and> fvec_L2sqr (axis_vector (- 1)) (axis_vector 1) \<noteq> 0
   \<and> search (snd (add_landmark SaveOk (axis_vector (- 1)) ''Taj_Mahal'' None engine_one))
        (axis_vector (- 1)) 1 =
       Inr [\<lparr>res_place_name = ''Taj_Mahal'', confidence = 1, distance = 0,
             res_metadata = \<lparr>place_name = ''Taj_Mahal'', image_path = None,
                              entry_index = 1\<rparr>\<rparr>]"
proof -
  have h1: "length (axis_vector (- 1)) = dimension" by (rule length_axis_vector)
  have h2: "idx_d (index engine_one) = dimension" by (simp add: engine_one_eq dimension_def)
  have h3: "length (metadata engine_one) = ntotal (index engine_one)"
    by (simp add: engine_one_eq ntotal_def)
  have h4: "\<not> place_name_exists (metadata engine_one) ''Taj_Mahal''"
    by (simp add: engine_one_eq)
  have d: "fvec_L2sqr (axis_vector (- 1)) (axis_vector 1) \<noteq> 0"
    by (simp add: fvec_L2sqr_axis_vector)
  then have h5: "\<forall>u \<in> set (idx_xb (index engine_one)). fvec_L2sqr (axis_vector (- 1)) u \<noteq> 0"
    by (simp add: engine_one_eq)
  have n: "int (ntotal (index engine_one)) = 1" by (simp add: engine_one_eq ntotal_def)
  from add_then_search_finds_it [OF h1 h2 h3 h4, of SaveOk None] h1 h2 h3 h4 h5 d n
  show ?thesis by simp
qed

subsection \<open>C9: positional identity\<close>

text \<open>
  C9: positional identity is preserved by every call of \<open>add_landmark\<close>: if the catalog
  is as long as the index and every entry's stored ordinal is its position, the same
  holds afterwards; and when the call appends (a vector of the right length, a new place
  name, an index of width \<open>dimension\<close>), the catalog and the index grow by one and the
  new entry's ordinal is the new size minus one.
\<close>

theorem add_landmark_positional_identity:
  assumes "positional_identity st"
  shows "positional_identity (snd (add_landmark io v p r st))
     \<and> (length v = dimension \<and> idx_d (index st) = dimension
          \<and> \<not> place_name_exists (metadata st) p \<longrightarrow>
        ntotal (index (snd (add_landmark io v p r st))) = ntotal (index st) + 1
        \<and> metadata (snd (add_landmark io v p r st)) =
            metadata st @
              [\<lparr>place_name = p, image_path = r,
                entry_index = int (ntotal (index (snd (add_landmark io v p r st)))) - 1\<rparr>])"
  using assms
  by (auto simp add: add_landmark_def positional_identity_def index_add_def ntotal_def
      save_database_memory split: sum.splits)

theorem add_landmark_positional_identity_witness:
  "positional_identity engine_one
   \<and> positional_identity (snd (add_landmark SaveOk (axis_vector (- 1)) ''Taj_Mahal'' None engine_one))
   \<and> map entry_index
       (metadata (snd (add_landmark SaveOk (axis_vector (- 1)) ''Taj_Mahal'' None engine_one)))
      = [0, 1]"
proof -
  have h: "positional_identity engine_one"
    by (simp add: positional_identity_def engine_one_eq ntotal_def)
  have c: "length (axis_vector (- 1)) = dimension \<and> idx_d (index engine_one) = dimension
          \<and> \<not> place_name_exists (metadata engine_one) ''Taj_Mahal''"
    by (simp add: length_axis_vector engine_one_eq dimension_def)
  have m: "map entry_index (metadata engine_one) = [0]" "ntotal (index engine_one) = 1"
    by (simp_all add: engine_one_eq ntotal_def)
  from add_landmark_positional_identity [OF h, of SaveOk "axis_vector (- 1)" "''Taj_Mahal''" None]
    h c m
  show ?thesis by simp
qed

subsection \<open>C10: a duplicate add writes nothing\<close>

text \<open>
  C10: an add for a place name that is already in the catalog does not reach the save
  step: whatever the file system would do with a write, and whatever the two files
  hold (also when they differ from the state in memory), both files are left as they
  were.
\<close>

theorem duplicate_add_no_write:
  assumes "place_name_exists (metadata st) p"
  shows "db_file (snd (add_landmark io v p r st)) = db_file st
       \<and> metadata_file (snd (add_landmark io v p r st)) = metadata_file st
       \<and> add_landmark io v p r st = add_landmark io' v p r st"
  using assms by (simp add: add_landmark_def)

text \<open>
  In \<open>engine_unsaved\<close> the files do not exist although the state in memory holds one
  landmark; a duplicate add with a working file system still creates no file.
\<close>

theorem duplicate_add_no_write_witness:
  "place_name_exists (metadata engine_unsaved) ''Eiffel_Tower''
   \<and> db_file (snd (add_landmark SaveOk (axis_vector (- 1)) ''Eiffel_Tower'' None engine_unsaved))
       = None
   \<and> metadata_file
       (snd (add_landmark SaveOk (axis_vector (- 1)) ''Eiffel_Tower'' None engine_unsaved))
       = None"
proof -
  have h: "place_name_exists (metadata engine_unsaved) ''Eiffel_Tower''"
    by (simp add: engine_unsaved_eq)
  have f: "db_file engine_unsaved = None" "metadata_file engine_unsaved = None"
    by (simp_all add: engine_unsaved_eq)
  from duplicate_add_no_write [OF h, of SaveOk "axis_vector (- 1)" None SaveOk] h f
  show ?thesis by simp
qed

end
